theory Spec2Isabelle
  imports Complex_Main
begin

section \<open>Data model of the voice session (src/components/LiveAgent.tsx)\<close>

text \<open>
  The component keeps its session in React refs and three state cells. Numbers of the
  source are JavaScript doubles; clock readings, durations and the energy value are
  modelled as exact reals. Every handler of the source is one function from the state
  before the callback to the state after it. Calls into the browser (Web Audio, media
  devices, the live session) are appended to the field \<open>calls\<close>, in program order, so
  that what was started, stopped, closed or sent can be read back from a state.
\<close>

type_synonym handle = nat

text \<open>The outbound payload \<open>{ data, mimeType }\<close> built by \<open>createPcmBlob\<close>.\<close>

record pcm_blob =
  blob_data :: string
  blob_mimeType :: string

text \<open>
  An \<open>AudioBuffer\<close>: its frame count and sample rate. The Web Audio attribute
  \<open>duration\<close> is the quotient of the two.
\<close>

record audio_buffer =
  buf_length :: nat
  buf_sampleRate :: nat

definition duration :: "audio_buffer \<Rightarrow> real" where
  "duration b = real (buf_length b) / real (buf_sampleRate b)"

text \<open>
  An \<open>AudioBufferSourceNode\<close> after \<open>source.start(when)\<close>: the object identity, the
  buffer it plays and the time handed to \<open>start\<close>.
\<close>

record source_node =
  node_id :: nat
  node_buffer :: audio_buffer
  node_when :: real

text \<open>
  The promise returned by \<open>ai.live.connect\<close>. While it is pending, \<open>then\<close> registers
  the reaction; the reactions registered in LiveAgent.tsx are all
  \<open>session => session.sendRealtimeInput({ media: pcmBlob })\<close>, so a reaction is kept as
  the payload it closes over.
\<close>

datatype session_promise = Pending "pcm_blob list" | Fulfilled | Rejected

datatype call =
    NodeDisconnect handle
  | TrackStop handle
  | ContextClose handle
  | SourceStart source_node
  | SourceStop source_node
  | SendRealtimeInput pcm_blob

text \<open>
  An inbound \<open>LiveServerMessage\<close>, reduced to the two paths the handler reads:
  \<open>serverContent?.modelTurn?.parts?.[0]?.inlineData?.data\<close> (absent is \<open>None\<close>) and
  \<open>serverContent?.interrupted\<close> (absent is \<open>False\<close>).
\<close>

record message =
  msg_audio :: "string option"
  msg_interrupted :: bool

record live_agent =
  connected_st :: bool
  error_st :: "string option"
  volume :: real
  audioContextRef :: "handle option"
  inputContextRef :: "handle option"
  streamRef :: "handle list option"
  processorRef :: "handle option"
  sourceRef :: "handle option"
  nextStartTimeRef :: real
  activeSourcesRef :: "source_node list"
  sessionPromiseRef :: "session_promise option"
  fresh :: nat
  calls :: "call list"

text \<open>The component as mounted: lines 10 to 22.\<close>

definition initial :: live_agent where
  "initial = \<lparr> connected_st = False, error_st = None, volume = 0,
     audioContextRef = None, inputContextRef = None, streamRef = None,
     processorRef = None, sourceRef = None, nextStartTimeRef = 0,
     activeSourcesRef = [], sessionPromiseRef = None, fresh = 0, calls = [] \<rparr>"

section \<open>Teardown: stopAudio (lines 78 to 111)\<close>

text \<open>
  Each guarded block releases one handle and nulls its ref. \<open>source.stop()\<close> sits in a
  \<open>try\<close> with an empty \<open>catch\<close>, so the loop visits every active source whatever the
  single calls do. The session promise is not touched (comment at lines 107 and 108).
\<close>

definition stopAudio :: "live_agent \<Rightarrow> live_agent" where
  "stopAudio s =
    (let s1 = (case processorRef s of None \<Rightarrow> s
               | Some p \<Rightarrow> s\<lparr> processorRef := None, calls := calls s @ [NodeDisconnect p] \<rparr>);
         s2 = (case sourceRef s1 of None \<Rightarrow> s1
               | Some m \<Rightarrow> s1\<lparr> sourceRef := None, calls := calls s1 @ [NodeDisconnect m] \<rparr>);
         s3 = (case streamRef s2 of None \<Rightarrow> s2
               | Some tracks \<Rightarrow> s2\<lparr> streamRef := None, calls := calls s2 @ map TrackStop tracks \<rparr>);
         s4 = (case inputContextRef s3 of None \<Rightarrow> s3
               | Some c \<Rightarrow> s3\<lparr> inputContextRef := None, calls := calls s3 @ [ContextClose c] \<rparr>);
         s5 = s4\<lparr> calls := calls s4 @ map SourceStop (activeSourcesRef s4),
                  activeSourcesRef := [] \<rparr>;
         s6 = (case audioContextRef s5 of None \<Rightarrow> s5
               | Some c \<Rightarrow> s5\<lparr> audioContextRef := None, calls := calls s5 @ [ContextClose c] \<rparr>)
     in s6\<lparr> connected_st := False, volume := 0 \<rparr>)"

section \<open>Inbound messages: onmessage (lines 160 to 189)\<close>

text \<open>
  \<open>decodeAudioData\<close> and \<open>base64ToUint8Array\<close> live in utils/audioUtils, which is not
  among the sources; the handler takes their composition as the parameter \<open>decode\<close>,
  \<open>None\<close> when either raises. The handler is an async function: a raise inside it
  rejects its promise and skips the rest of the body, which is the outcome \<open>Threw\<close>;
  assignments made before the raise stay. An invocation is taken as one step: after its
  one \<open>await\<close> (line 168) it resumes before any other callback runs.
\<close>

datatype outcome = Completed | Threw

text \<open>\<open>Set.add\<close> keeps insertion order and ignores an element already present.\<close>

definition set_add :: "'a \<Rightarrow> 'a list \<Rightarrow> 'a list" where
  "set_add x xs = (if x \<in> set xs then xs else xs @ [x])"

text \<open>
  Lines 162 to 181. The guard is \<open>base64Audio && audioContextRef.current\<close>: an empty
  string is falsy. \<open>now\<close> is the reading of \<open>ctx.currentTime\<close> at line 165.
\<close>

definition handle_audio ::
  "(string \<Rightarrow> audio_buffer option) \<Rightarrow> real \<Rightarrow> message \<Rightarrow> live_agent \<Rightarrow> outcome \<times> live_agent" where
  "handle_audio decode now m s =
    (case msg_audio m of
       None \<Rightarrow> (Completed, s)
     | Some base64Audio \<Rightarrow>
        (if base64Audio = [] \<or> audioContextRef s = None then (Completed, s)
         else
           (let s1 = s\<lparr> nextStartTimeRef := max (nextStartTimeRef s) now \<rparr> in
            case decode base64Audio of
              None \<Rightarrow> (Threw, s1)
            | Some audioBuffer \<Rightarrow>
               (let source = \<lparr> node_id = fresh s1, node_buffer = audioBuffer,
                               node_when = nextStartTimeRef s1 \<rparr>
                in (Completed,
                    s1\<lparr> fresh := Suc (fresh s1),
                        calls := calls s1 @ [SourceStart source],
                        nextStartTimeRef := nextStartTimeRef s1 + duration audioBuffer,
                        activeSourcesRef := set_add source (activeSourcesRef s1) \<rparr>)))))"

text \<open>
  Lines 184 to 188. \<open>stop()\<close> raises only on a node that was never started, and a node
  enters the active set after its \<open>start\<close> (line 178 before line 180).
\<close>

definition handle_interrupted :: "message \<Rightarrow> live_agent \<Rightarrow> live_agent" where
  "handle_interrupted m s =
    (if msg_interrupted m
     then s\<lparr> calls := calls s @ map SourceStop (activeSourcesRef s),
             activeSourcesRef := [],
             nextStartTimeRef := 0 \<rparr>
     else s)"

definition onmessage ::
  "(string \<Rightarrow> audio_buffer option) \<Rightarrow> real \<Rightarrow> message \<Rightarrow> live_agent \<Rightarrow> outcome \<times> live_agent" where
  "onmessage decode now m s =
    (case handle_audio decode now m s of
       (Threw, s1) \<Rightarrow> (Threw, s1)
     | (Completed, s1) \<Rightarrow> (Completed, handle_interrupted m s1))"

text \<open>The listener of line 174: a source that ends leaves the active set.\<close>

definition onended :: "source_node \<Rightarrow> live_agent \<Rightarrow> live_agent" where
  "onended source s = s\<lparr> activeSourcesRef := removeAll source (activeSourcesRef s) \<rparr>"

text \<open>
  A run of inbound messages, each with the clock reading of its own invocation. A
  handler that threw ends alone; the next message starts from the state it left.
\<close>

fun deliver ::
  "(string \<Rightarrow> audio_buffer option) \<Rightarrow> (real \<times> message) list \<Rightarrow> live_agent \<Rightarrow> live_agent" where
  "deliver decode [] s = s"
| "deliver decode ((now, m) # rest) s = deliver decode rest (snd (onmessage decode now m s))"

text \<open>The segments handed to \<open>start\<close>, in call order.\<close>

fun started :: "call list \<Rightarrow> source_node list" where
  "started [] = []"
| "started (SourceStart n # cs) = n # started cs"
| "started (_ # cs) = started cs"


section \<open>Capture tap: onopen and onaudioprocess (lines 132 to 159)\<close>

text \<open>
  Lines 146 to 148: the loop adds up the squares, then the root of their mean. The tap
  is created with a block size of 4096, so a block is never empty; for an empty block
  the source divides zero by zero.
\<close>

definition sum_squares :: "real list \<Rightarrow> real" where
  "sum_squares inputData = foldl (\<lambda>sum x. sum + x * x) 0 inputData"

definition rms :: "real list \<Rightarrow> real" where
  "rms inputData = sqrt (sum_squares inputData / real (length inputData))"

text \<open>
  \<open>promise.then(reaction)\<close> for the reactions of line 152: a pending promise keeps the
  reaction, a fulfilled one runs it (the send happens), a rejected one never runs it.
\<close>

definition then_send :: "pcm_blob \<Rightarrow> live_agent \<Rightarrow> live_agent" where
  "then_send pcmBlob s =
    (case sessionPromiseRef s of
       None \<Rightarrow> s
     | Some (Pending reactions) \<Rightarrow> s\<lparr> sessionPromiseRef := Some (Pending (reactions @ [pcmBlob])) \<rparr>
     | Some Fulfilled \<Rightarrow> s\<lparr> calls := calls s @ [SendRealtimeInput pcmBlob] \<rparr>
     | Some Rejected \<Rightarrow> s)"

text \<open>
  Lines 143 to 155. \<open>createPcmBlob\<close> is imported from utils/audioUtils and is a
  parameter here. \<open>setVolume\<close> gets an updater, applied to the current value.
\<close>

definition onaudioprocess :: "(real list \<Rightarrow> pcm_blob) \<Rightarrow> real list \<Rightarrow> live_agent \<Rightarrow> live_agent" where
  "onaudioprocess createPcmBlob inputData s =
    (let s1 = s\<lparr> volume := max (rms inputData) (volume s * (9 / 10)) \<rparr>;
         pcmBlob = createPcmBlob inputData
     in then_send pcmBlob s1)"

text \<open>
  The device calls the handler only through the installed processor node: the handler is
  a property of the node that \<open>onopen\<close> creates and \<open>stopAudio\<close> disconnects.
\<close>

definition capture_tap :: "(real list \<Rightarrow> pcm_blob) \<Rightarrow> real list \<Rightarrow> live_agent \<Rightarrow> live_agent" where
  "capture_tap createPcmBlob inputData s =
    (case processorRef s of None \<Rightarrow> s | Some p \<Rightarrow> onaudioprocess createPcmBlob inputData s)"

text \<open>Lines 132 to 159.\<close>

definition onopen :: "live_agent \<Rightarrow> live_agent" where
  "onopen s =
    (let s1 = s\<lparr> connected_st := True \<rparr> in
     case inputContextRef s1 of
       None \<Rightarrow> s1
     | Some ictx \<Rightarrow> s1\<lparr> sourceRef := Some (fresh s1),
                        processorRef := Some (Suc (fresh s1)),
                        fresh := Suc (Suc (fresh s1)) \<rparr>)"

text \<open>Lines 190 to 198.\<close>

definition onclose :: "live_agent \<Rightarrow> live_agent" where
  "onclose s = stopAudio (s\<lparr> connected_st := False \<rparr>)"

definition onerror :: "live_agent \<Rightarrow> live_agent" where
  "onerror s = stopAudio (s\<lparr> error_st := Some ''Connection error. Please try again.'' \<rparr>)"

text \<open>
  Lines 113 to 214. \<open>getUserMedia\<close> either yields a stream (its tracks) or rejects with
  a message; the rejection is caught at line 209. \<open>connect\<close> is not awaited: its promise
  is stored pending.
\<close>

definition startSession :: "string + handle list \<Rightarrow> live_agent \<Rightarrow> live_agent" where
  "startSession media s =
    (let s1 = s\<lparr> error_st := None \<rparr>;
         s2 = s1\<lparr> audioContextRef := Some (fresh s1), inputContextRef := Some (Suc (fresh s1)),
                  fresh := Suc (Suc (fresh s1)) \<rparr>
     in case media of
          Inl msg \<Rightarrow>
            stopAudio (s2\<lparr> error_st := Some (if msg = [] then ''Failed to start session'' else msg) \<rparr>)
        | Inr tracks \<Rightarrow> s2\<lparr> streamRef := Some tracks, sessionPromiseRef := Some (Pending []) \<rparr>)"

text \<open>The promise of \<open>connect\<close> settles: the kept reactions run in order, or are dropped.\<close>

definition session_fulfilled :: "live_agent \<Rightarrow> live_agent" where
  "session_fulfilled s =
    (case sessionPromiseRef s of
       Some (Pending reactions) \<Rightarrow>
         s\<lparr> sessionPromiseRef := Some Fulfilled, calls := calls s @ map SendRealtimeInput reactions \<rparr>
     | _ \<Rightarrow> s)"

definition session_rejected :: "live_agent \<Rightarrow> live_agent" where
  "session_rejected s =
    (case sessionPromiseRef s of
       Some (Pending reactions) \<Rightarrow> s\<lparr> sessionPromiseRef := Some Rejected \<rparr>
     | _ \<Rightarrow> s)"

text \<open>Everything that re-enters the component, and a run of such events.\<close>

datatype event =
    StartSession "string + handle list"
  | Open
  | SessionFulfilled
  | SessionRejected
  | AudioProcess "real list"
  | Message real message
  | Ended source_node
  | Close
  | Error
  | Stop

fun step ::
  "(real list \<Rightarrow> pcm_blob) \<Rightarrow> (string \<Rightarrow> audio_buffer option) \<Rightarrow> event \<Rightarrow> live_agent \<Rightarrow> live_agent" where
  "step createPcmBlob decode (StartSession media) s = startSession media s"
| "step createPcmBlob decode Open s = onopen s"
| "step createPcmBlob decode SessionFulfilled s = session_fulfilled s"
| "step createPcmBlob decode SessionRejected s = session_rejected s"
| "step createPcmBlob decode (AudioProcess inputData) s = capture_tap createPcmBlob inputData s"
| "step createPcmBlob decode (Message now m) s = snd (onmessage decode now m s)"
| "step createPcmBlob decode (Ended source) s = onended source s"
| "step createPcmBlob decode Close s = onclose s"
| "step createPcmBlob decode Error s = onerror s"
| "step createPcmBlob decode Stop s = stopAudio s"

fun run ::
  "(real list \<Rightarrow> pcm_blob) \<Rightarrow> (string \<Rightarrow> audio_buffer option) \<Rightarrow> event list \<Rightarrow> live_agent \<Rightarrow> live_agent" where
  "run createPcmBlob decode [] s = s"
| "run createPcmBlob decode (e # es) s = run createPcmBlob decode es (step createPcmBlob decode e s)"



definition in_range :: "real list \<Rightarrow> bool" where
  "in_range inputData = (inputData \<noteq> [] \<and> list_all (\<lambda>x. - 1 \<le> x \<and> x \<le> 1) inputData)"

fun blocks_in_range :: "event list \<Rightarrow> bool" where
  "blocks_in_range [] = True"
| "blocks_in_range (AudioProcess inputData # es) = (in_range inputData \<and> blocks_in_range es)"
| "blocks_in_range (_ # es) = blocks_in_range es"


section \<open>A sample session\<close>

text \<open>
  Concrete inputs on which the handlers are evaluated below: a decoder that accepts one
  payload (half a second of audio at 24 kHz) and raises on every other, three messages,
  and the state reached from the mounted component by a granted microphone request
  followed by the open callback.
\<close>

definition sample_decode :: "string \<Rightarrow> audio_buffer option" where
  "sample_decode base64Audio =
     (if base64Audio = ''AAAA'' then Some \<lparr> buf_length = 12000, buf_sampleRate = 24000 \<rparr> else None)"

definition chunk :: message where
  "chunk = \<lparr> msg_audio = Some ''AAAA'', msg_interrupted = False \<rparr>"

definition bad_chunk :: message where
  "bad_chunk = \<lparr> msg_audio = Some ''?'', msg_interrupted = False \<rparr>"


definition live_session :: live_agent where
  "live_session = onopen (startSession (Inr [7]) initial)"

text \<open>The sample session after one chunk, read at clock time 1/4.\<close>

definition playing_session :: live_agent where
  "playing_session = snd (onmessage sample_decode (1 / 4) chunk live_session)"

text \<open>
  A silent block, a loud one, a stand-in for \<open>createPcmBlob\<close> that writes the sign of
  each sample, and the sample session at an energy of 1/2.
\<close>

definition silence :: "real list" where
  "silence = [0, 0, 0, 0]"

definition loud :: "real list" where
  "loud = [1, - 1, 1, - 1]"

definition toy_blob :: "real list \<Rightarrow> pcm_blob" where
  "toy_blob inputData =
     \<lparr> blob_data = map (\<lambda>x. if x < 0 then CHR ''-'' else if x = 0 then CHR ''0'' else CHR ''+'') inputData,
       blob_mimeType = ''audio/pcm;rate=16000'' \<rparr>"

definition humming_session :: live_agent where
  "humming_session = live_session\<lparr> volume := 1 / 2 \<rparr>"

text \<open>A session that is started, opened, hears a loud block and then a silent one.\<close>

definition sample_run :: "event list" where
  "sample_run = [StartSession (Inr [7]), Open, SessionFulfilled, AudioProcess loud, AudioProcess silence]"

section \<open>Signal Framer (utils/audioUtils, from the specification)\<close>

text \<open>
  Modelled from the spec: \<open>createPcmBlob\<close> of utils/audioUtils, which LiveAgent.tsx imports
  and which is not among the sources. Section 4.1 of the specification gives its steps:
  each sample is clamped to the range from -1 to 1, a NaN or undefined sample becoming 0;
  the clamped sample is scaled to a 16-bit signed integer; the integers are packed
  little-endian; the bytes are base64-encoded; the descriptor is \<open>audio/pcm;rate=16000\<close>.
  The specification names neither the factor nor the rounding: the factor here is
  32767, the largest that keeps every clamped sample in the 16-bit range, and the
  fraction is cut off, as a store into a 16-bit integer array does. A sample is
  \<open>None\<close> when it is NaN or undefined.
\<close>

definition clamp_sample :: "real option \<Rightarrow> real" where
  "clamp_sample x = (case x of None \<Rightarrow> 0 | Some v \<Rightarrow> max (- 1) (min 1 v))"

definition to_int16 :: "real \<Rightarrow> int" where
  "to_int16 v = (if 0 \<le> v then \<lfloor>v * 32767\<rfloor> else \<lceil>v * 32767\<rceil>)"

text \<open>Two's complement, low byte first.\<close>

definition int16_bytes :: "int \<Rightarrow> nat list" where
  "int16_bytes q = (let u = nat (q mod 65536) in [u mod 256, u div 256])"

definition base64_alphabet :: string where
  "base64_alphabet = ''ABCDEFGHIJKLMNOPQRSTUVWXYZabcdefghijklmnopqrstuvwxyz0123456789+/''"

definition base64_char :: "nat \<Rightarrow> char" where
  "base64_char i = base64_alphabet ! (i mod 64)"

fun base64_encode :: "nat list \<Rightarrow> string" where
  "base64_encode (a # b # c # rest) =
     base64_char (a div 4) # base64_char ((a mod 4) * 16 + b div 16)
       # base64_char ((b mod 16) * 4 + c div 64) # base64_char (c mod 64) # base64_encode rest"
| "base64_encode [a, b] =
     [base64_char (a div 4), base64_char ((a mod 4) * 16 + b div 16),
      base64_char ((b mod 16) * 4), CHR ''='']"
| "base64_encode [a] = [base64_char (a div 4), base64_char ((a mod 4) * 16), CHR ''='', CHR ''='']"
| "base64_encode [] = []"

definition frame :: "real option list \<Rightarrow> pcm_blob" where
  "frame samples =
     \<lparr> blob_data = base64_encode (concat (map (\<lambda>x. int16_bytes (to_int16 (clamp_sample x))) samples)),
       blob_mimeType = ''audio/pcm;rate=16000'' \<rparr>"

text \<open>
  Modelled from the spec: the way back that the round trip of section 8 speaks of, base64
  to bytes and byte pairs to 16-bit signed integers. \<open>None\<close> is text that is not base64.
\<close>

fun index_of :: "'a \<Rightarrow> 'a list \<Rightarrow> nat option" where
  "index_of x [] = None"
| "index_of x (y # ys) = (if x = y then Some 0 else map_option Suc (index_of x ys))"

definition base64_value :: "char \<Rightarrow> nat option" where
  "base64_value c = index_of c base64_alphabet"

fun base64_decode :: "string \<Rightarrow> nat list option" where
  "base64_decode [] = Some []"
| "base64_decode (c0 # c1 # c2 # c3 # rest) =
     (case (base64_value c0, base64_value c1) of
        (Some s0, Some s1) \<Rightarrow>
          (if c2 = CHR ''='' \<and> c3 = CHR ''='' \<and> rest = [] then Some [s0 * 4 + s1 div 16]
           else
             (case base64_value c2 of
                None \<Rightarrow> None
              | Some s2 \<Rightarrow>
                 (if c3 = CHR ''='' \<and> rest = []
                  then Some [s0 * 4 + s1 div 16, (s1 mod 16) * 16 + s2 div 4]
                  else
                    (case (base64_value c3, base64_decode rest) of
                       (Some s3, Some bytes) \<Rightarrow>
                         Some ([s0 * 4 + s1 div 16, (s1 mod 16) * 16 + s2 div 4,
                                (s2 mod 4) * 64 + s3] @ bytes)
                     | _ \<Rightarrow> None))))
      | _ \<Rightarrow> None)"
| "base64_decode _ = None"

fun bytes_int16 :: "nat list \<Rightarrow> int list" where
  "bytes_int16 (lo # hi # rest) =
     (let u = int lo + 256 * int hi in if u < 32768 then u else u - 65536) # bytes_int16 rest"
| "bytes_int16 _ = []"

definition unframe :: "pcm_blob \<Rightarrow> int list option" where
  "unframe p = map_option bytes_int16 (base64_decode (blob_data p))"

text \<open>A block with both extremes, a missing sample and a half.\<close>

definition sample_block :: "real option list" where
  "sample_block = [Some 1, Some (- 1), None, Some (1 / 2), Some 3]"





section \<open>Playback scheduling\<close>









lemma live_session_eq:
  "live_session = \<lparr> connected_st = True, error_st = None, volume = 0,
     audioContextRef = Some 0, inputContextRef = Some 1, streamRef = Some [7],
     processorRef = Some 3, sourceRef = Some 2, nextStartTimeRef = 0,
     activeSourcesRef = [], sessionPromiseRef = Some (Pending []), fresh = 4, calls = [] \<rparr>"
  by (simp add: live_session_def onopen_def startSession_def initial_def Let_def)


lemma deliver_two_chunks:
  "started (calls (deliver sample_decode [(1 / 4, chunk), (1 / 2, chunk)] live_session)) =
     [\<lparr> node_id = 4, node_buffer = \<lparr> buf_length = 12000, buf_sampleRate = 24000 \<rparr>, node_when = 1 / 4 \<rparr>,
      \<lparr> node_id = 5, node_buffer = \<lparr> buf_length = 12000, buf_sampleRate = 24000 \<rparr>, node_when = 3 / 4 \<rparr>]"
  by (simp add: live_session_eq onmessage_def handle_audio_def handle_interrupted_def
      sample_decode_def chunk_def set_add_def duration_def Let_def)


section \<open>Teardown, interruption and failed decoding\<close>

lemma stopAudio_refs:
  "processorRef (stopAudio s) = None" "sourceRef (stopAudio s) = None"
  "streamRef (stopAudio s) = None" "inputContextRef (stopAudio s) = None"
  "audioContextRef (stopAudio s) = None" "activeSourcesRef (stopAudio s) = []"
  "volume (stopAudio s) = 0" "connected_st (stopAudio s) = False"
  by (simp_all add: stopAudio_def Let_def split: option.splits)

lemma stopAudio_keeps:
  "sessionPromiseRef (stopAudio s) = sessionPromiseRef s"
  "nextStartTimeRef (stopAudio s) = nextStartTimeRef s"
  "error_st (stopAudio s) = error_st s" "fresh (stopAudio s) = fresh s"
  by (simp_all add: stopAudio_def Let_def split: option.splits)

lemma handle_audio_no_context:
  "audioContextRef s = None \<Longrightarrow> handle_audio decode now m s = (Completed, s)"
  by (simp add: handle_audio_def split: option.splits)

lemma onmessage_no_context:
  "audioContextRef s = None \<Longrightarrow> onmessage decode now m s = (Completed, handle_interrupted m s)"
  by (simp add: onmessage_def handle_audio_no_context)

lemma deliver_no_context:
  "audioContextRef s = None \<Longrightarrow> \<forall>e \<in> set evs. \<not> msg_interrupted (snd e) \<Longrightarrow> deliver decode evs s = s"
  by (induction evs arbitrary: s) (auto simp: onmessage_no_context handle_interrupted_def)



text \<open>
  Claim C5, as the code has it. When the bytes of an audio chunk fail to decode, the
  handler ends at the raise: nothing is started, the active set, every handle, the
  connection flag and the error slot are as before, and no duration is added to
  \<open>nextStartTime\<close>. The assignment of line 165 has already run, so \<open>nextStartTime\<close> is the
  larger of its old value and the clock reading: it keeps its value exactly when the
  clock has not passed it.
\<close>

theorem failed_decode_keeps_session:
  assumes "audioContextRef s = Some ctx" and "msg_audio m = Some b" and "b \<noteq> []" and "decode b = None"
  shows "onmessage decode now m s = (Threw, s\<lparr> nextStartTimeRef := max (nextStartTimeRef s) now \<rparr>)
    \<and> (nextStartTimeRef (snd (onmessage decode now m s)) = nextStartTimeRef s \<longleftrightarrow> now \<le> nextStartTimeRef s)"
  using assms by (auto simp: onmessage_def handle_audio_def Let_def)

text \<open>
  The sample session, idle, receives an undecodable chunk at clock time 1.
\<close>

theorem failed_decode_keeps_session_witness:
  "audioContextRef live_session = Some 0 \<and> msg_audio bad_chunk = Some ''?'' \<and> ''?'' \<noteq> []
   \<and> sample_decode ''?'' = None
   \<and> onmessage sample_decode 1 bad_chunk live_session = (Threw, live_session\<lparr> nextStartTimeRef := 1 \<rparr>)"
proof -
  have h: "audioContextRef live_session = Some 0" "msg_audio bad_chunk = Some ''?''" "''?'' \<noteq> []"
    "sample_decode ''?'' = None"
    by (simp_all add: live_session_eq bad_chunk_def sample_decode_def)
  note t = failed_decode_keeps_session [of live_session 0 bad_chunk "''?''" sample_decode 1]
  from t h have "onmessage sample_decode 1 bad_chunk live_session =
      (Threw, live_session\<lparr> nextStartTimeRef := max (nextStartTimeRef live_session) 1 \<rparr>)"
    by blast
  then have "onmessage sample_decode 1 bad_chunk live_session = (Threw, live_session\<lparr> nextStartTimeRef := 1 \<rparr>)"
    by (simp add: live_session_eq)
  with h show ?thesis by simp
qed

text \<open>
  Claim C5 as stated fails there: \<open>nextStartTime\<close> is 0 before the failed enqueue and 1
  after it.
\<close>

theorem failed_decode_moves_nextStartTime:
  "sample_decode ''?'' = None
   \<and> nextStartTimeRef live_session = 0
   \<and> nextStartTimeRef (snd (onmessage sample_decode 1 bad_chunk live_session)) = 1"
  by (simp add: live_session_eq onmessage_def handle_audio_def bad_chunk_def sample_decode_def Let_def)

text \<open>
  Claim C10. After \<open>stopAudio\<close> the output context ref is null, so an inbound message
  starts nothing: the handler runs to its end, makes no call and leaves the active set
  as it is. A message without the interruption flag leaves the whole state unchanged,
  \<open>nextStartTime\<close> included, and so does any run of such messages. (With the flag set,
  lines 184 to 188 still run and put \<open>nextStartTime\<close> to 0.)
\<close>

theorem messages_after_teardown_skipped:
  "fst (onmessage decode now m (stopAudio s)) = Completed
   \<and> calls (snd (onmessage decode now m (stopAudio s))) = calls (stopAudio s)
   \<and> activeSourcesRef (snd (onmessage decode now m (stopAudio s))) = activeSourcesRef (stopAudio s)
   \<and> (\<not> msg_interrupted m \<longrightarrow> snd (onmessage decode now m (stopAudio s)) = stopAudio s)
   \<and> ((\<forall>e \<in> set evs. \<not> msg_interrupted (snd e)) \<longrightarrow> deliver decode evs (stopAudio s) = stopAudio s)"
  using deliver_no_context [of "stopAudio s" evs decode]
  by (simp add: onmessage_no_context stopAudio_refs handle_interrupted_def)

text \<open>
  The sample session is torn down while a chunk is playing; two more chunks arrive.
\<close>

theorem messages_after_teardown_skipped_witness:
  "\<not> msg_interrupted chunk
   \<and> activeSourcesRef playing_session \<noteq> []
   \<and> audioContextRef playing_session = Some 0
   \<and> snd (onmessage sample_decode 2 chunk (stopAudio playing_session)) = stopAudio playing_session
   \<and> deliver sample_decode [(2, chunk), (3, chunk)] (stopAudio playing_session) = stopAudio playing_session
   \<and> nextStartTimeRef (stopAudio playing_session) = 3 / 4"
proof -
  have h: "\<not> msg_interrupted chunk" by (simp add: chunk_def)
  have p: "activeSourcesRef playing_session \<noteq> []" "audioContextRef playing_session = Some 0"
    "nextStartTimeRef playing_session = 3 / 4"
    by (simp_all add: playing_session_def live_session_eq onmessage_def handle_audio_def handle_interrupted_def
      sample_decode_def chunk_def set_add_def duration_def Let_def)
  note t = messages_after_teardown_skipped [of sample_decode 2 chunk playing_session "[(2, chunk), (3, chunk)]"]
  from t h have a: "snd (onmessage sample_decode 2 chunk (stopAudio playing_session)) = stopAudio playing_session"
    by blast
  have "\<forall>e \<in> set [(2 :: real, chunk), (3, chunk)]. \<not> msg_interrupted (snd e)"
    using h by simp
  with t have b: "deliver sample_decode [(2, chunk), (3, chunk)] (stopAudio playing_session) = stopAudio playing_session"
    by blast
  have c: "nextStartTimeRef (stopAudio playing_session) = 3 / 4"
    using p(3) by (simp only: stopAudio_keeps)
  from h p(1,2) a b c show ?thesis by blast
qed

lemma stopAudio_calls_eq:
  "calls (stopAudio s) = calls s
     @ (case processorRef s of None \<Rightarrow> [] | Some p \<Rightarrow> [NodeDisconnect p])
     @ (case sourceRef s of None \<Rightarrow> [] | Some m \<Rightarrow> [NodeDisconnect m])
     @ (case streamRef s of None \<Rightarrow> [] | Some tracks \<Rightarrow> map TrackStop tracks)
     @ (case inputContextRef s of None \<Rightarrow> [] | Some c \<Rightarrow> [ContextClose c])
     @ map SourceStop (activeSourcesRef s)
     @ (case audioContextRef s of None \<Rightarrow> [] | Some c \<Rightarrow> [ContextClose c])"
  by (simp add: stopAudio_def Let_def split: option.splits)

lemma stopAudio_calls:
  "\<exists>cs. calls (stopAudio s) = calls s @ cs
     \<and> (\<forall>p. processorRef s = Some p \<longrightarrow> NodeDisconnect p \<in> set cs)
     \<and> (\<forall>m. sourceRef s = Some m \<longrightarrow> NodeDisconnect m \<in> set cs)
     \<and> (\<forall>tracks. streamRef s = Some tracks \<longrightarrow> (\<forall>t \<in> set tracks. TrackStop t \<in> set cs))
     \<and> (\<forall>c. inputContextRef s = Some c \<longrightarrow> ContextClose c \<in> set cs)
     \<and> (\<forall>c. audioContextRef s = Some c \<longrightarrow> ContextClose c \<in> set cs)
     \<and> (\<forall>n \<in> set (activeSourcesRef s). SourceStop n \<in> set cs)"
  unfolding stopAudio_calls_eq
  by (rule exI, rule conjI, rule refl) auto

lemma stopAudio_released:
  assumes "processorRef s = None" and "sourceRef s = None" and "streamRef s = None"
    and "inputContextRef s = None" and "audioContextRef s = None" and "activeSourcesRef s = []"
    and "volume s = 0" and "\<not> connected_st s"
  shows "stopAudio s = s"
  using assms by (cases s) (simp add: stopAudio_def)

text \<open>
  Claim C8, as the code has it. \<open>stopAudio\<close> is a total function of the state: none of
  its statements can raise past it. From any state it disconnects the processor and the
  microphone source, stops every track of the stream, closes both contexts and calls
  \<open>stop\<close> on every active source; afterwards the five device refs are null, the active
  set is empty, the connection flag is off and the energy value is 0. The session
  promise ref is left as it was. A second call right after changes nothing and makes no
  call.
\<close>

theorem teardown_releases_devices:
  "(\<exists>cs. calls (stopAudio s) = calls s @ cs
     \<and> (\<forall>p. processorRef s = Some p \<longrightarrow> NodeDisconnect p \<in> set cs)
     \<and> (\<forall>m. sourceRef s = Some m \<longrightarrow> NodeDisconnect m \<in> set cs)
     \<and> (\<forall>tracks. streamRef s = Some tracks \<longrightarrow> (\<forall>t \<in> set tracks. TrackStop t \<in> set cs))
     \<and> (\<forall>c. inputContextRef s = Some c \<longrightarrow> ContextClose c \<in> set cs)
     \<and> (\<forall>c. audioContextRef s = Some c \<longrightarrow> ContextClose c \<in> set cs)
     \<and> (\<forall>n \<in> set (activeSourcesRef s). SourceStop n \<in> set cs))
   \<and> processorRef (stopAudio s) = None \<and> sourceRef (stopAudio s) = None
   \<and> streamRef (stopAudio s) = None \<and> inputContextRef (stopAudio s) = None
   \<and> audioContextRef (stopAudio s) = None \<and> activeSourcesRef (stopAudio s) = []
   \<and> \<not> connected_st (stopAudio s) \<and> volume (stopAudio s) = 0
   \<and> sessionPromiseRef (stopAudio s) = sessionPromiseRef s
   \<and> stopAudio (stopAudio s) = stopAudio s"
proof -
  have "stopAudio (stopAudio s) = stopAudio s"
    by (rule stopAudio_released) (simp_all add: stopAudio_refs)
  with stopAudio_calls [of s] show ?thesis
    by (simp only: stopAudio_refs stopAudio_keeps simp_thms)
qed

text \<open>
  Teardown of the sample session while a chunk is playing: processor 3, source 2,
  track 7, contexts 1 and 0 and the playing node are released.
\<close>

theorem teardown_releases_devices_witness:
  "processorRef playing_session = Some 3 \<and> sourceRef playing_session = Some 2
   \<and> streamRef playing_session = Some [7] \<and> inputContextRef playing_session = Some 1
   \<and> audioContextRef playing_session = Some 0
   \<and> activeSourcesRef playing_session =
        [\<lparr> node_id = 4, node_buffer = \<lparr> buf_length = 12000, buf_sampleRate = 24000 \<rparr>, node_when = 1 / 4 \<rparr>]
   \<and> NodeDisconnect 3 \<in> set (calls (stopAudio playing_session))
   \<and> NodeDisconnect 2 \<in> set (calls (stopAudio playing_session))
   \<and> TrackStop 7 \<in> set (calls (stopAudio playing_session))
   \<and> ContextClose 1 \<in> set (calls (stopAudio playing_session))
   \<and> ContextClose 0 \<in> set (calls (stopAudio playing_session))
   \<and> SourceStop \<lparr> node_id = 4, node_buffer = \<lparr> buf_length = 12000, buf_sampleRate = 24000 \<rparr>, node_when = 1 / 4 \<rparr>
        \<in> set (calls (stopAudio playing_session))
   \<and> stopAudio (stopAudio playing_session) = stopAudio playing_session"
proof -
  have p: "processorRef playing_session = Some 3" "sourceRef playing_session = Some 2"
    "streamRef playing_session = Some [7]" "inputContextRef playing_session = Some 1"
    "audioContextRef playing_session = Some 0"
    "activeSourcesRef playing_session =
        [\<lparr> node_id = 4, node_buffer = \<lparr> buf_length = 12000, buf_sampleRate = 24000 \<rparr>, node_when = 1 / 4 \<rparr>]"
    by (simp_all add: playing_session_def live_session_eq onmessage_def handle_audio_def handle_interrupted_def
      sample_decode_def chunk_def set_add_def Let_def)
  note t = teardown_releases_devices [of playing_session]
  from t obtain cs where cs: "calls (stopAudio playing_session) = calls playing_session @ cs"
    "\<forall>p. processorRef playing_session = Some p \<longrightarrow> NodeDisconnect p \<in> set cs"
    "\<forall>m. sourceRef playing_session = Some m \<longrightarrow> NodeDisconnect m \<in> set cs"
    "\<forall>tracks. streamRef playing_session = Some tracks \<longrightarrow> (\<forall>t \<in> set tracks. TrackStop t \<in> set cs)"
    "\<forall>c. inputContextRef playing_session = Some c \<longrightarrow> ContextClose c \<in> set cs"
    "\<forall>c. audioContextRef playing_session = Some c \<longrightarrow> ContextClose c \<in> set cs"
    "\<forall>n \<in> set (activeSourcesRef playing_session). SourceStop n \<in> set cs"
    by blast
  from cs(2) p(1) have a: "NodeDisconnect 3 \<in> set cs" by blast
  from cs(3) p(2) have b: "NodeDisconnect 2 \<in> set cs" by blast
  from cs(4) p(3) have c: "TrackStop 7 \<in> set cs" by simp
  from cs(5) p(4) have d: "ContextClose 1 \<in> set cs" by blast
  from cs(6) p(5) have e: "ContextClose 0 \<in> set cs" by blast
  from cs(7) p(6) have f: "SourceStop \<lparr> node_id = 4, node_buffer = \<lparr> buf_length = 12000, buf_sampleRate = 24000 \<rparr>, node_when = 1 / 4 \<rparr> \<in> set cs"
    by simp
  from t have g: "stopAudio (stopAudio playing_session) = stopAudio playing_session" by blast
  have "set cs \<subseteq> set (calls (stopAudio playing_session))"
    by (simp add: cs(1))
  with a b c d e f have "NodeDisconnect 3 \<in> set (calls (stopAudio playing_session))"
    "NodeDisconnect 2 \<in> set (calls (stopAudio playing_session))"
    "TrackStop 7 \<in> set (calls (stopAudio playing_session))"
    "ContextClose 1 \<in> set (calls (stopAudio playing_session))"
    "ContextClose 0 \<in> set (calls (stopAudio playing_session))"
    "SourceStop \<lparr> node_id = 4, node_buffer = \<lparr> buf_length = 12000, buf_sampleRate = 24000 \<rparr>, node_when = 1 / 4 \<rparr>
        \<in> set (calls (stopAudio playing_session))"
    by blast+
  with p g show ?thesis by blast
qed

text \<open>
  Claim C8 as stated fails on the handle of the transport: the sample session holds the
  promise of \<open>connect\<close>, and still holds it after teardown.
\<close>

theorem teardown_keeps_session_promise:
  "sessionPromiseRef live_session = Some (Pending [])
   \<and> sessionPromiseRef (stopAudio live_session) = Some (Pending [])"
  by (simp add: live_session_eq stopAudio_def)

section \<open>The energy value\<close>

lemma foldl_squares: "foldl (\<lambda>sum x. sum + x * x) a xs = a + (\<Sum>x\<leftarrow>xs. x * x)"
  by (induction xs arbitrary: a) (simp_all add: add.assoc)

lemma sum_squares_sum_list: "sum_squares xs = (\<Sum>x\<leftarrow>xs. x * x)"
  by (simp add: sum_squares_def foldl_squares)

lemma sum_squares_nonneg: "0 \<le> sum_squares xs"
  unfolding sum_squares_sum_list by (induction xs) simp_all


lemma square_le_one: "- 1 \<le> x \<Longrightarrow> x \<le> 1 \<Longrightarrow> x * x \<le> (1::real)"
  using abs_le_square_iff [of x 1] by (simp add: power2_eq_square abs_le_iff)

lemma sum_squares_in_range:
  "list_all (\<lambda>x. - 1 \<le> x \<and> x \<le> 1) xs \<Longrightarrow> sum_squares xs \<le> real (length xs)"
  unfolding sum_squares_sum_list
proof (induction xs)
  case Nil
  then show ?case by simp
next
  case (Cons x xs)
  then have "x * x \<le> 1" by (simp add: square_le_one)
  with Cons show ?case by simp
qed

lemma rms_nonneg: "0 \<le> rms xs"
  by (simp add: rms_def sum_squares_nonneg)


lemma rms_in_range: "in_range xs \<Longrightarrow> rms xs \<le> 1"
proof -
  assume a: "in_range xs"
  then have "0 < real (length xs)" by (simp add: in_range_def)
  moreover from a have "sum_squares xs \<le> real (length xs)"
    by (simp add: in_range_def sum_squares_in_range)
  ultimately have "sum_squares xs / real (length xs) \<le> 1" by (simp add: divide_le_eq)
  then show ?thesis by (simp add: rms_def)
qed

lemma volume_then_send: "volume (then_send pcmBlob s) = volume s"
  by (simp add: then_send_def split: option.splits session_promise.splits)

lemma volume_onaudioprocess:
  "volume (onaudioprocess createPcmBlob inputData s) = max (rms inputData) (volume s * (9 / 10))"
  by (simp add: onaudioprocess_def Let_def volume_then_send)





lemma rms_silence: "rms silence = 0"
  by (simp add: rms_def sum_squares_def silence_def)

lemma rms_loud: "rms loud = 1"
  by (simp add: rms_def sum_squares_def loud_def)


lemma volume_onmessage: "volume (snd (onmessage decode now m s)) = volume s"
  by (simp add: onmessage_def handle_audio_def handle_interrupted_def Let_def
      split: option.splits)

lemma volume_startSession: "volume (startSession media s) = 0 \<or> volume (startSession media s) = volume s"
  by (simp add: startSession_def Let_def stopAudio_refs split: sum.splits)

lemma volume_capture_tap:
  "in_range inputData \<Longrightarrow> 0 \<le> volume s \<Longrightarrow> volume s \<le> 1 \<Longrightarrow>
     0 \<le> volume (capture_tap createPcmBlob inputData s) \<and> volume (capture_tap createPcmBlob inputData s) \<le> 1"
  using rms_nonneg [of inputData] rms_in_range [of inputData]
  by (auto simp: capture_tap_def volume_onaudioprocess max_def split: option.splits)

lemma volume_step:
  assumes "blocks_in_range [e]" and "0 \<le> volume s" and "volume s \<le> 1"
  shows "0 \<le> volume (step createPcmBlob decode e s) \<and> volume (step createPcmBlob decode e s) \<le> 1"
proof (cases e)
  case (StartSession media)
  with assms volume_startSession [of media s] show ?thesis by auto
next
  case (AudioProcess inputData)
  with assms show ?thesis by (simp add: volume_capture_tap)
next
  case (Message now m)
  with assms show ?thesis by (simp add: volume_onmessage)
qed (use assms in \<open>simp_all add: onopen_def session_fulfilled_def session_rejected_def onended_def
      onclose_def onerror_def stopAudio_refs Let_def split: option.splits session_promise.splits\<close>)

lemma blocks_in_range_Cons: "blocks_in_range (e # es) \<longleftrightarrow> blocks_in_range [e] \<and> blocks_in_range es"
  by (cases e) simp_all

lemma volume_run:
  "blocks_in_range evs \<Longrightarrow> 0 \<le> volume s \<Longrightarrow> volume s \<le> 1 \<Longrightarrow>
     0 \<le> volume (run createPcmBlob decode evs s) \<and> volume (run createPcmBlob decode evs s) \<le> 1"
proof (induction evs arbitrary: s)
  case Nil
  then show ?case by simp
next
  case (Cons e evs)
  from Cons.prems have "blocks_in_range [e]" "blocks_in_range evs"
    using blocks_in_range_Cons [of e evs] by simp_all
  with Cons.prems volume_step [of e s createPcmBlob decode] Cons.IH [of "step createPcmBlob decode e s"]
  show ?case by simp
qed

text \<open>
  Claim C7. From the mounted component, whose energy value is 0, and from any state
  whose value lies between 0 and 1, every run of events whose capture blocks are not
  empty and hold samples between -1 and 1 ends with the value between 0 and 1; every
  prefix of a run is such a run, so this holds after each update. Teardown puts the
  value to 0.
\<close>

theorem energy_in_unit_interval:
  "(blocks_in_range evs \<longrightarrow>
       0 \<le> volume (run createPcmBlob decode evs initial)
       \<and> volume (run createPcmBlob decode evs initial) \<le> 1)
   \<and> (blocks_in_range evs \<and> 0 \<le> volume s \<and> volume s \<le> 1 \<longrightarrow>
       0 \<le> volume (run createPcmBlob decode evs s) \<and> volume (run createPcmBlob decode evs s) \<le> 1)
   \<and> volume (stopAudio s) = 0"
  using volume_run [of evs initial createPcmBlob decode] volume_run [of evs s createPcmBlob decode]
  by (simp add: stopAudio_refs initial_def)

lemma sample_run_state:
  "run toy_blob sample_decode sample_run initial =
     live_session\<lparr> volume := 9 / 10, sessionPromiseRef := Some Fulfilled,
       calls := [SendRealtimeInput (toy_blob loud), SendRealtimeInput (toy_blob silence)] \<rparr>"
  by (simp add: sample_run_def live_session_eq initial_def startSession_def onopen_def
      session_fulfilled_def capture_tap_def onaudioprocess_def then_send_def rms_loud rms_silence Let_def)

text \<open>The sample run leaves the energy at 9/10: the loud block put it to 1.\<close>

theorem energy_in_unit_interval_witness:
  "blocks_in_range sample_run
   \<and> volume (run toy_blob sample_decode sample_run initial) = 9 / 10
   \<and> 0 \<le> volume (run toy_blob sample_decode sample_run initial)
   \<and> volume (run toy_blob sample_decode sample_run initial) \<le> 1
   \<and> 0 \<le> volume humming_session \<and> volume humming_session \<le> 1
   \<and> 0 \<le> volume (run toy_blob sample_decode sample_run humming_session)
   \<and> volume (run toy_blob sample_decode sample_run humming_session) \<le> 1"
proof -
  have h: "blocks_in_range sample_run"
    by (simp add: sample_run_def in_range_def loud_def silence_def)
  have u: "0 \<le> volume humming_session" "volume humming_session \<le> 1"
    by (simp_all add: humming_session_def)
  note t = energy_in_unit_interval [of sample_run toy_blob sample_decode humming_session]
  from t h have a: "0 \<le> volume (run toy_blob sample_decode sample_run initial)"
    "volume (run toy_blob sample_decode sample_run initial) \<le> 1"
    by blast+
  from t h u have b: "0 \<le> volume (run toy_blob sample_decode sample_run humming_session)"
    "volume (run toy_blob sample_decode sample_run humming_session) \<le> 1"
    by blast+
  have c: "volume (run toy_blob sample_decode sample_run initial) = 9 / 10"
    by (simp add: sample_run_state)
  from h u a b c show ?thesis by blast
qed

section \<open>Round trip of the Signal Framer\<close>

lemma base64_alphabet_length: "length base64_alphabet = 64"
  by (simp add: base64_alphabet_def)

lemma base64_alphabet_distinct: "distinct base64_alphabet"
  by (simp add: base64_alphabet_def)

lemma base64_alphabet_no_pad: "CHR ''='' \<notin> set base64_alphabet"
  by (simp add: base64_alphabet_def)

lemma index_of_nth: "distinct xs \<Longrightarrow> i < length xs \<Longrightarrow> index_of (xs ! i) xs = Some i"
proof (induction xs arbitrary: i)
  case Nil
  then show ?case by simp
next
  case (Cons x xs)
  show ?case
  proof (cases i)
    case 0
    then show ?thesis by simp
  next
    case (Suc j)
    with Cons.prems have "xs ! j \<in> set xs" "x \<notin> set xs" by simp_all
    then have "xs ! j \<noteq> x" by blast
    with Suc Cons show ?thesis by simp
  qed
qed

lemma base64_value_char: "i < 64 \<Longrightarrow> base64_value (base64_char i) = Some i"
  by (simp add: base64_value_def base64_char_def index_of_nth base64_alphabet_distinct
      base64_alphabet_length)

lemma base64_char_no_pad: "base64_char i \<noteq> CHR ''=''"
proof -
  have "base64_char i \<in> set base64_alphabet"
    by (simp add: base64_char_def base64_alphabet_length)
  with base64_alphabet_no_pad show ?thesis by metis
qed

lemma div_lt: "(b::nat) < 256 \<Longrightarrow> b div 16 < 16" "(c::nat) < 256 \<Longrightarrow> c div 64 < 4" "(a::nat) < 256 \<Longrightarrow> a div 4 < 64"
  by (simp_all add: less_mult_imp_div_less)

lemma part_div: "x < n \<Longrightarrow> (k * n + x) div n = (k::nat)"
  by simp

lemma part_mod: "x < n \<Longrightarrow> (k * n + x) mod n = (x::nat)"
  by simp

lemma sextets_of_bytes:
  fixes a b c :: nat
  assumes "a < 256" and "b < 256" and "c < 256"
  shows "a div 4 < 64" and "(a mod 4) * 16 + b div 16 < 64" and "(b mod 16) * 4 + c div 64 < 64"
    and "c mod 64 < 64" and "(a mod 4) * 16 < 64" and "(b mod 16) * 4 < 64"
proof -
  have m: "a mod 4 < 4" "b mod 16 < 16" by simp_all
  from assms show "a div 4 < 64" by (simp add: div_lt)
  from m(1) div_lt(1) [OF assms(2)] show "(a mod 4) * 16 + b div 16 < 64" by linarith
  from m(2) div_lt(2) [OF assms(3)] show "(b mod 16) * 4 + c div 64 < 64" by linarith
  show "c mod 64 < 64" by simp
  from m(1) show "(a mod 4) * 16 < 64" by linarith
  from m(2) show "(b mod 16) * 4 < 64" by linarith
qed

lemma bytes_of_sextets:
  fixes a b c :: nat
  assumes "b < 256" and "c < 256"
  shows "a div 4 * 4 + ((a mod 4) * 16 + b div 16) div 16 = a"
    and "((a mod 4) * 16 + b div 16) mod 16 * 16 + ((b mod 16) * 4 + c div 64) div 4 = b"
    and "((b mod 16) * 4 + c div 64) mod 4 * 64 + c mod 64 = c"
    and "a div 4 * 4 + (a mod 4) * 16 div 16 = a"
    and "((a mod 4) * 16 + b div 16) mod 16 * 16 + (b mod 16) * 4 div 4 = b"
proof -
  note b16 = div_lt(1) [OF assms(1)] and c64 = div_lt(2) [OF assms(2)]
  have d1: "((a mod 4) * 16 + b div 16) div 16 = a mod 4" using b16 by (rule part_div)
  have m1: "((a mod 4) * 16 + b div 16) mod 16 = b div 16" using b16 by (rule part_mod)
  have d2: "((b mod 16) * 4 + c div 64) div 4 = b mod 16" using c64 by (rule part_div)
  have m2: "((b mod 16) * 4 + c div 64) mod 4 = c div 64" using c64 by (rule part_mod)
  show "a div 4 * 4 + ((a mod 4) * 16 + b div 16) div 16 = a" unfolding d1 by simp
  show "((a mod 4) * 16 + b div 16) mod 16 * 16 + ((b mod 16) * 4 + c div 64) div 4 = b"
    unfolding m1 d2 by simp
  show "((b mod 16) * 4 + c div 64) mod 4 * 64 + c mod 64 = c" unfolding m2 by simp
  show "a div 4 * 4 + (a mod 4) * 16 div 16 = a" by simp
  show "((a mod 4) * 16 + b div 16) mod 16 * 16 + (b mod 16) * 4 div 4 = b" unfolding m1 by simp
qed

lemma base64_round_trip:
  "list_all (\<lambda>b. b < 256) bytes \<Longrightarrow> base64_decode (base64_encode bytes) = Some bytes"
proof (induction bytes rule: base64_encode.induct)
  case (1 a b c rest)
  then have lt: "a < 256" "b < 256" "c < 256" and rest: "base64_decode (base64_encode rest) = Some rest"
    by simp_all
  note sx = sextets_of_bytes [OF lt]
  note v = sx(1-4) [THEN base64_value_char]
  have "base64_decode (base64_encode (a # b # c # rest)) =
      Some ([a div 4 * 4 + ((a mod 4) * 16 + b div 16) div 16,
             ((a mod 4) * 16 + b div 16) mod 16 * 16 + ((b mod 16) * 4 + c div 64) div 4,
             ((b mod 16) * 4 + c div 64) mod 4 * 64 + c mod 64] @ rest)"
    by (simp only: base64_encode.simps base64_decode.simps v base64_char_no_pad rest
        option.case prod.case simp_thms if_False)
  then show ?case by (simp only: bytes_of_sextets [OF lt(2,3)] append.simps)
next
  case (2 a b)
  then have lt: "a < 256" "b < 256" by simp_all
  note sx = sextets_of_bytes [OF lt lt(2)]
  note v = sx(1,2,6) [THEN base64_value_char]
  have "base64_decode (base64_encode [a, b]) =
      Some [a div 4 * 4 + ((a mod 4) * 16 + b div 16) div 16,
            ((a mod 4) * 16 + b div 16) mod 16 * 16 + (b mod 16) * 4 div 4]"
    by (simp only: base64_encode.simps base64_decode.simps v base64_char_no_pad
        option.case prod.case simp_thms if_False if_True)
  then show ?case by (simp only: bytes_of_sextets [OF lt(2) lt(2)])
next
  case (3 a)
  then have lt: "a < 256" by simp
  note sx = sextets_of_bytes [OF lt lt lt]
  note v = sx(1,5) [THEN base64_value_char]
  have "base64_decode (base64_encode [a]) = Some [a div 4 * 4 + (a mod 4) * 16 div 16]"
    by (simp only: base64_encode.simps base64_decode.simps v
        option.case prod.case simp_thms if_True)
  then show ?case by (simp only: bytes_of_sextets [OF lt lt])
next
  case 4
  show ?case by simp
qed

lemma int16_bytes_range: "list_all (\<lambda>b. b < 256) (int16_bytes q)"
proof -
  have "nat (q mod 65536) < 65536" by simp
  then have "nat (q mod 65536) div 256 < 256" by (simp add: less_mult_imp_div_less)
  then show ?thesis by (simp add: int16_bytes_def Let_def)
qed

lemma bytes_int16_int16_bytes:
  assumes "- 32768 \<le> q" and "q \<le> 32767"
  shows "bytes_int16 (int16_bytes q @ rest) = q # bytes_int16 rest"
proof -
  define u where "u = nat (q mod 65536)"
  define w where "w = int (u mod 256) + 256 * int (u div 256)"
  have "w = int u" by (simp add: w_def zmod_int zdiv_int)
  also have "\<dots> = q mod 65536" by (simp add: u_def)
  also have "\<dots> = (if 0 \<le> q then q else q + 65536)"
  proof (cases "0 \<le> q")
    case True
    with assms show ?thesis by simp
  next
    case False
    with assms have "0 \<le> q + 65536" "q + 65536 < 65536" by simp_all
    then have "(q + 65536) mod 65536 = q + 65536" by (rule mod_pos_pos_trivial)
    with False show ?thesis by simp
  qed
  finally have "(if w < 32768 then w else w - 65536) = q"
    using assms by simp
  then have "bytes_int16 ([u mod 256, u div 256] @ rest) = q # bytes_int16 rest"
    by (simp add: w_def Let_def split: if_splits)
  then show ?thesis by (simp only: int16_bytes_def Let_def u_def)
qed

lemma clamp_sample_range: "- 1 \<le> clamp_sample x" "clamp_sample x \<le> 1"
  by (simp_all add: clamp_sample_def split: option.splits)

lemma to_int16_close:
  assumes "- 1 \<le> v" and "v \<le> 1"
  shows "- 32768 \<le> to_int16 v \<and> to_int16 v \<le> 32767 \<and> \<bar>real_of_int (to_int16 v) - v * 32767\<bar> < 1"
proof (cases "0 \<le> v")
  case True
  with assms have "0 \<le> v * 32767" "v * 32767 \<le> 32767" by simp_all
  then have "0 \<le> \<lfloor>v * 32767\<rfloor>" "\<lfloor>v * 32767\<rfloor> \<le> 32767"
    by (simp_all add: floor_le_iff)
  moreover have "\<bar>real_of_int \<lfloor>v * 32767\<rfloor> - v * 32767\<bar> < 1" by linarith
  ultimately show ?thesis using True by (simp add: to_int16_def)
next
  case False
  with assms have "v * 32767 \<le> 0" "- 32767 \<le> v * 32767" by simp_all
  then have "\<lceil>v * 32767\<rceil> \<le> 0" "- 32767 \<le> \<lceil>v * 32767\<rceil>"
    by (simp_all add: ceiling_le_iff le_ceiling_iff)
  moreover have "\<bar>real_of_int \<lceil>v * 32767\<rceil> - v * 32767\<bar> < 1" by linarith
  ultimately show ?thesis using False by (simp add: to_int16_def)
qed

lemma bytes_of_samples_range:
  "list_all (\<lambda>b. b < 256) (concat (map (\<lambda>x. int16_bytes (to_int16 (clamp_sample x))) samples))"
  by (induction samples) (simp_all add: int16_bytes_range)

lemma bytes_int16_samples:
  "bytes_int16 (concat (map (\<lambda>x. int16_bytes (to_int16 (clamp_sample x))) samples)) =
     map (\<lambda>x. to_int16 (clamp_sample x)) samples"
proof (induction samples)
  case Nil
  then show ?case by simp
next
  case (Cons x samples)
  have "- 32768 \<le> to_int16 (clamp_sample x)" "to_int16 (clamp_sample x) \<le> 32767"
    using to_int16_close [OF clamp_sample_range, of x] by simp_all
  then show ?case using Cons by (simp add: bytes_int16_int16_bytes)
qed

lemma unframe_frame: "unframe (frame samples) = Some (map (\<lambda>x. to_int16 (clamp_sample x)) samples)"
  by (simp add: unframe_def frame_def base64_round_trip bytes_of_samples_range bytes_int16_samples)

text \<open>
  Claim C9, on the Signal Framer as the specification describes it. Decoding the payload
  of a block gives one 16-bit signed integer per sample, and each differs from its
  sample, clamped and scaled by 32767, by less than one unit of the last place. A
  clamped sample lies between -1 and 1, a NaN or undefined sample is clamped to 0, and
  the payload carries the descriptor of 16 kHz linear PCM.
\<close>

theorem frame_round_trip:
  "(\<exists>decoded. unframe (frame samples) = Some decoded
      \<and> list_all2 (\<lambda>q x. - 32768 \<le> q \<and> q \<le> 32767
            \<and> - 1 \<le> clamp_sample x \<and> clamp_sample x \<le> 1
            \<and> \<bar>real_of_int q - clamp_sample x * 32767\<bar> < 1) decoded samples)
   \<and> clamp_sample None = 0
   \<and> blob_mimeType (frame samples) = ''audio/pcm;rate=16000''"
proof -
  have "list_all2 (\<lambda>q x. - 32768 \<le> q \<and> q \<le> 32767
            \<and> - 1 \<le> clamp_sample x \<and> clamp_sample x \<le> 1
            \<and> \<bar>real_of_int q - clamp_sample x * 32767\<bar> < 1)
          (map (\<lambda>x. to_int16 (clamp_sample x)) samples) samples"
    using to_int16_close [OF clamp_sample_range] clamp_sample_range
    by (simp add: list_all2_map1 list_all2_same)
  then show ?thesis
    using unframe_frame [of samples] by (simp add: clamp_sample_def frame_def)
qed

lemma frame_sample_block:
  "frame sample_block = \<lparr> blob_data = ''/38BgAAA/z//fw=='', blob_mimeType = ''audio/pcm;rate=16000'' \<rparr>"
  "unframe (frame sample_block) = Some [32767, - 32767, 0, 16383, 32767]"
  by (simp_all add: unframe_frame)
    (simp_all add: frame_def sample_block_def clamp_sample_def to_int16_def int16_bytes_def
      base64_char_def base64_alphabet_def)

section \<open>Outbound audio\<close>













end
